theory Spec2Isabelle
  imports Main "HOL-Library.Word" "HOL-Library.Signed_Division"
begin

section \<open>The betty front-end (cmd/bettyfe/main.go)\<close>

text \<open>
  A shallow embedding of \<^verbatim>\<open>cmd/bettyfe/main.go\<close>. Go values are modelled as follows:
  \<^item> \<^verbatim>\<open>uint64\<close>, \<^verbatim>\<open>int\<close> (64 bit) and \<^verbatim>\<open>time.Duration\<close> (an \<^verbatim>\<open>int64\<close> of
    nanoseconds) are \<open>64 word\<close>: \<open>+\<close> and \<open>-\<close> wrap, signed comparisons are \<open><s\<close>;
  \<^item> \<^verbatim>\<open>string\<close> and \<^verbatim>\<open>[]byte\<close> are \<open>string\<close> (a list of bytes; \<^verbatim>\<open>nil\<close> is \<open>[]\<close>);
  \<^item> an \<^verbatim>\<open>error\<close> is the value \<open>Err m\<close> with its \<^verbatim>\<open>Error()\<close> text \<open>m\<close>; a function
    returning \<^verbatim>\<open>(x, error)\<close> returns a sum (\<open>Inl\<close> the error), one that only returns
    \<^verbatim>\<open>error\<close> and changes the world returns \<open>error option\<close> and the new world;
  \<^item> \<^verbatim>\<open>klog\<close> output is a list of lines; \<^verbatim>\<open>klog.Exitf\<close> ends the process;
  \<^item> goroutines are not modelled: a call of a handler, of a closure or of a method of the
    aggregator is one step, and the clock is read by passing the elapsed time in.
\<close>

type_synonym uint64 = "64 word"
type_synonym Duration = "64 word"
type_synonym bytes = string

datatype error = Err (Error: string)

subsection \<open>The latency aggregator\<close>

text \<open>
  \<^verbatim>\<open>type latency struct { sync.Mutex; total time.Duration; n int; min, max time.Duration }\<close>.
  Every method holds the mutex from its first to its last statement, so a method is one
  atomic step on the record. \<open>latency_zero\<close> is the value of \<^verbatim>\<open>&latency{}\<close>.
\<close>

record latency =
  lat_total :: Duration
  lat_n :: "64 word"
  lat_min :: Duration
  lat_max :: Duration

definition latency_zero :: latency where
  "latency_zero = \<lparr>lat_total = 0, lat_n = 0, lat_min = 0, lat_max = 0\<rparr>"

definition Millisecond :: Duration where
  "Millisecond = 1000000"

text \<open>Go's \<^verbatim>\<open>/\<close> on \<^verbatim>\<open>int64\<close>: the quotient truncated towards zero, wrapped to 64 bits.\<close>

definition int64_div :: "64 word \<Rightarrow> 64 word \<Rightarrow> 64 word" where
  "int64_div a b = word_of_int (sint a sdiv sint b)"

definition latency_Add :: "latency \<Rightarrow> Duration \<Rightarrow> latency" where
  "latency_Add l d =
     (let l1 = l\<lparr>lat_total := lat_total l + d\<rparr>;
          l2 = l1\<lparr>lat_n := lat_n l1 + 1\<rparr>;
          l3 = (if d <s lat_min l2 then l2\<lparr>lat_min := d\<rparr> else l2);
          l4 = (if lat_max l3 <s d then l3\<lparr>lat_max := d\<rparr> else l3)
      in l4)"

text \<open>
  \<^verbatim>\<open>String\<close>; the first argument is \<^verbatim>\<open>%v\<close> on a \<^verbatim>\<open>time.Duration\<close>
  (\<^verbatim>\<open>Duration.String\<close> of the standard library).
\<close>

definition latency_String :: "(Duration \<Rightarrow> string) \<Rightarrow> latency \<Rightarrow> string" where
  "latency_String fmt_v l =
     (if lat_n l = 0 then ''--''
      else ''[Mean: '' @ fmt_v (int64_div (lat_total l) (lat_n l))
           @ '' Min: '' @ fmt_v (lat_min l) @ '' Max '' @ fmt_v (lat_max l) @ '']'')"

subsection \<open>Formatting\<close>

text \<open>\<^verbatim>\<open>%d\<close> of \<^verbatim>\<open>fmt\<close> on an unsigned integer: its decimal digits, most significant first.\<close>

fun fmt_d :: "nat \<Rightarrow> string" where
  "fmt_d k = (if k < 10 then [char_of (48 + k)] else fmt_d (k div 10) @ [char_of (48 + k mod 10)])"

declare fmt_d.simps [simp del]

subsection \<open>Checkpoints, keys and the collaborating packages\<close>

text \<open>\<^verbatim>\<open>f_log.Checkpoint\<close>, with the fields \<^verbatim>\<open>newTree\<close> sets and \<^verbatim>\<open>currentTree\<close> reads.\<close>

record checkpoint =
  Origin :: string
  Size :: uint64
  Hash :: bytes

text \<open>
  The interfaces \<^verbatim>\<open>note.Signer\<close> and \<^verbatim>\<open>note.Verifier\<close>: \<^verbatim>\<open>Name()\<close>, \<^verbatim>\<open>KeyHash()\<close> and
  \<^verbatim>\<open>Sign(msg)\<close> or \<^verbatim>\<open>Verify(msg, sig)\<close>. \<open>'t\<close> is the note text that is signed.
\<close>

record 't signer =
  Signer_Name :: string
  Signer_KeyHash :: "32 word"
  Signer_Sign :: "'t \<Rightarrow> error + bytes"

record 't verifier =
  Verifier_Name :: string
  Verifier_KeyHash :: "32 word"
  Verifier_Verify :: "'t \<Rightarrow> bytes \<Rightarrow> bool"

text \<open>
  The functions \<^verbatim>\<open>main.go\<close> calls in other packages are parameters of the model, one
  field each. None of them is defined in \<^verbatim>\<open>main.go\<close>, and \<^verbatim>\<open>main.go\<close> never looks
  inside the byte strings it hands from one to the other, so the model leaves their
  representation open: \<open>'t\<close> is the text of a note (what \<^verbatim>\<open>cp.Marshal()\<close> returns),
  \<open>'n\<close> the bytes of a signed note (what \<^verbatim>\<open>note.Sign\<close> returns and the checkpoint file
  holds), \<open>'fs\<close> the state of the file system.
  \<^item> \<open>posix_ReadCheckpoint fs path\<close>: \<^verbatim>\<open>posix.ReadCheckpoint(path)\<close>;
  \<^item> \<open>posix_WriteCheckpoint fs path n\<close>: \<^verbatim>\<open>posix.WriteCheckpoint(path, n)\<close>, returning its
    error and the file system it leaves;
  \<^item> \<open>os_MkdirAll fs path perm\<close>: \<^verbatim>\<open>os.MkdirAll(path, perm)\<close>, likewise;
  \<^item> \<open>Checkpoint_Marshal cp\<close>: \<^verbatim>\<open>cp.Marshal()\<close>;
  \<^item> \<open>note_Sign text signer\<close>: \<^verbatim>\<open>note.Sign(&note.Note{Text: text}, signer)\<close>;
  \<^item> \<open>f_log_ParseCheckpoint b origin verifier\<close>: the checkpoint and the error of
    \<^verbatim>\<open>f_log.ParseCheckpoint(b, origin, verifier)\<close>.
\<close>

record ('fs, 't, 'n) collab =
  posix_ReadCheckpoint :: "'fs \<Rightarrow> string \<Rightarrow> error + 'n"
  posix_WriteCheckpoint :: "'fs \<Rightarrow> string \<Rightarrow> 'n \<Rightarrow> error option \<times> 'fs"
  os_MkdirAll :: "'fs \<Rightarrow> string \<Rightarrow> nat \<Rightarrow> error option \<times> 'fs"
  Checkpoint_Marshal :: "checkpoint \<Rightarrow> 't"
  note_Sign :: "'t \<Rightarrow> 't signer \<Rightarrow> error + 'n"
  f_log_ParseCheckpoint :: "'n \<Rightarrow> string \<Rightarrow> 't verifier \<Rightarrow> error + checkpoint"

subsection \<open>currentTree and newTree\<close>

text \<open>
  \<^verbatim>\<open>currentTree(path, verifier)\<close> returns a closure; \<open>currentTree D path verifier\<close> is that
  closure, a function of the file system it is called in. It returns \<open>Inl err\<close> for
  \<^verbatim>\<open>(0, nil, err)\<close> and \<open>Inr (size, hash)\<close> for \<^verbatim>\<open>(size, hash, nil)\<close>.
\<close>

definition currentTree ::
  "('fs, 't, 'n) collab \<Rightarrow> string \<Rightarrow> 't verifier \<Rightarrow> 'fs \<Rightarrow> error + (uint64 \<times> bytes)" where
  "currentTree D path verifier fs =
     (case posix_ReadCheckpoint D fs path of
        Inl err \<Rightarrow> Inl (Err (''ReadCheckpoint: '' @ Error err))
      | Inr b \<Rightarrow>
          (case f_log_ParseCheckpoint D b (Verifier_Name verifier) verifier of
             Inl err \<Rightarrow> Inl err
           | Inr cp \<Rightarrow> Inr (Size cp, Hash cp)))"

text \<open>
  \<^verbatim>\<open>newTree(path, signer)\<close>, likewise: the closure returns its error (\<open>None\<close> for
  \<^verbatim>\<open>nil\<close>) and the file system it leaves.
\<close>

definition newTree ::
  "('fs, 't, 'n) collab \<Rightarrow> string \<Rightarrow> 't signer \<Rightarrow> uint64 \<Rightarrow> bytes \<Rightarrow> 'fs \<Rightarrow> error option \<times> 'fs" where
  "newTree D path signer sz hash fs =
     (let cp = \<lparr>Origin = Signer_Name signer, Size = sz, Hash = hash\<rparr> in
      case note_Sign D (Checkpoint_Marshal D cp) signer of
        Inl err \<Rightarrow> (Some err, fs)
      | Inr n \<Rightarrow> posix_WriteCheckpoint D fs path n)"

subsection \<open>Startup\<close>

datatype klog_line = Infof string | Errorf string | Exitf string

text \<open>
  How a stretch of \<^verbatim>\<open>main\<close> ends: \<open>Exited\<close> when \<^verbatim>\<open>klog.Exitf\<close> ended the process,
  \<open>Running\<close> when control goes on; both with the lines logged and the file system left.
\<close>

datatype 'fs outcome = Exited "klog_line list" 'fs | Running "klog_line list" 'fs

text \<open>
  \<^verbatim>\<open>main\<close> from the two closures to the first checkpoint (lines 88 to 99), given the keys
  that \<^verbatim>\<open>keysFromFlag\<close> returned. \<open>493\<close> is \<^verbatim>\<open>0o755\<close>.
\<close>

definition main_startup ::
  "('fs, 't, 'n) collab \<Rightarrow> string \<Rightarrow> 't signer \<Rightarrow> 't verifier \<Rightarrow> 'fs \<Rightarrow> 'fs outcome" where
  "main_startup D path sKey vKey fs =
     (let ct = currentTree D path vKey;
          nt = newTree D path sKey
      in case os_MkdirAll D fs path 493 of
           (Some err, fs1) \<Rightarrow>
             Exited [Exitf (''failed to make directory structure: '' @ Error err)] fs1
         | (None, fs1) \<Rightarrow>
             (case ct fs1 of
                Inr _ \<Rightarrow> Running [] fs1
              | Inl err \<Rightarrow>
                  (case nt 0 ''Empty'' fs1 of
                     (Some err', fs2) \<Rightarrow>
                       Exited [Infof (''ct: '' @ Error err),
                               Exitf (''Failed to initialise log: '' @ Error err')] fs2
                   | (None, fs2) \<Rightarrow> Running [Infof (''ct: '' @ Error err)] fs2)))"

subsection \<open>The handler of POST /add\<close>

text \<open>
  \<^verbatim>\<open>http.ResponseWriter\<close> as the handler uses it: the status code once the header is
  written, and the body written so far. \<^verbatim>\<open>WriteHeader\<close> sets the status unless one is
  set; \<^verbatim>\<open>Write\<close> first writes the header with \<^verbatim>\<open>http.StatusOK\<close> if none was written.
\<close>

record ResponseWriter =
  rw_status :: "nat option"
  rw_body :: bytes

definition StatusOK :: nat where
  "StatusOK = 200"

definition StatusInternalServerError :: nat where
  "StatusInternalServerError = 500"

definition new_ResponseWriter :: ResponseWriter where
  "new_ResponseWriter = \<lparr>rw_status = None, rw_body = []\<rparr>"

definition WriteHeader :: "ResponseWriter \<Rightarrow> nat \<Rightarrow> ResponseWriter" where
  "WriteHeader w code = (if rw_status w = None then w\<lparr>rw_status := Some code\<rparr> else w)"

definition Write :: "ResponseWriter \<Rightarrow> bytes \<Rightarrow> ResponseWriter" where
  "Write w b = (let w' = WriteHeader w StatusOK in w'\<lparr>rw_body := rw_body w' @ b\<rparr>)"

text \<open>What one call of the handler leaves: the response, the aggregator and the storage.\<close>

record 'st handled =
  h_response :: ResponseWriter
  h_latency :: latency
  h_storage :: 'st

text \<open>
  The handler registered for \<^verbatim>\<open>POST /add\<close>. \<open>Sequence st b\<close> is \<^verbatim>\<open>s.Sequence(ctx, b)\<close>
  in the storage state \<open>st\<close>, \<open>readAll\<close> the result of \<^verbatim>\<open>io.ReadAll(r.Body)\<close> and
  \<open>elapsed\<close> the value of \<^verbatim>\<open>time.Since(n)\<close> when the deferred function runs, which is
  after everything else on each of the three ways out.
\<close>

definition POST_add ::
  "('st \<Rightarrow> bytes \<Rightarrow> (error + uint64) \<times> 'st) \<Rightarrow> error + bytes \<Rightarrow> Duration
     \<Rightarrow> ResponseWriter \<Rightarrow> latency \<Rightarrow> 'st \<Rightarrow> 'st handled" where
  "POST_add Sequence readAll elapsed w l st =
     (let (w', st') =
        (case readAll of
           Inl err \<Rightarrow> (WriteHeader w StatusInternalServerError, st)
         | Inr b \<Rightarrow>
             (case Sequence st b of
                (Inl err, st1) \<Rightarrow>
                  (Write (WriteHeader w StatusInternalServerError)
                     (''Failed to sequence entry: '' @ Error err), st1)
              | (Inr idx, st1) \<Rightarrow> (Write w (fmt_d (unat idx) @ ''\<newline>''), st1)))
      in \<lparr>h_response = w', h_latency = latency_Add l elapsed, h_storage = st'\<rparr>)"

subsection \<open>The stats reporter\<close>

text \<open>
  \<^verbatim>\<open>printStats(ctx, s, l)\<close>. The loop is run over the ticks of its timer: each tick
  carries the world \<open>w\<close> in which \<open>s\<close> is called and the aggregator \<open>l\<close> as it is when
  the line is formatted; the list ends where \<^verbatim>\<open>ctx.Done()\<close> is chosen. The state of the
  loop is \<^verbatim>\<open>lastSize\<close> and the lines logged so far, and the result is that state when
  the function returns. \<open>stats_line\<close> is the line of \<^verbatim>\<open>klog.Infof\<close> in the loop.
\<close>

definition stats_line :: "(Duration \<Rightarrow> string) \<Rightarrow> uint64 \<Rightarrow> uint64 \<Rightarrow> latency \<Rightarrow> klog_line" where
  "stats_line fmt_v sz lastSize l =
     (let added = sz - lastSize
      in Infof (''CP size '' @ fmt_d (unat sz) @ '' (+'' @ fmt_d (unat added)
                @ ''); Latency: '' @ latency_String fmt_v l))"

fun printStats_loop ::
  "(Duration \<Rightarrow> string) \<Rightarrow> ('w \<Rightarrow> error + (uint64 \<times> bytes)) \<Rightarrow> uint64 \<Rightarrow> klog_line list
     \<Rightarrow> ('w \<times> latency) list \<Rightarrow> uint64 \<times> klog_line list" where
  "printStats_loop fmt_v s lastSize out [] = (lastSize, out)"
| "printStats_loop fmt_v s lastSize out ((w, l) # ticks) =
     (case s w of
        Inl err \<Rightarrow>
          printStats_loop fmt_v s lastSize
            (out @ [Errorf (''Failed to get checkpoint: '' @ Error err)]) ticks
      | Inr (sz, _) \<Rightarrow>
          (let out' = (if 0 < lastSize then out @ [stats_line fmt_v sz lastSize l] else out)
           in printStats_loop fmt_v s sz out' ticks))"

definition printStats ::
  "(Duration \<Rightarrow> string) \<Rightarrow> ('w \<Rightarrow> error + (uint64 \<times> bytes)) \<Rightarrow> ('w \<times> latency) list
     \<Rightarrow> uint64 \<times> klog_line list" where
  "printStats fmt_v s ticks = printStats_loop fmt_v s 0 [] ticks"

text \<open>The sizes the loop has read: one for each tick on which \<open>s\<close> returned no error.\<close>

fun observed_sizes :: "('w \<Rightarrow> error + (uint64 \<times> bytes)) \<Rightarrow> ('w \<times> latency) list \<Rightarrow> uint64 list" where
  "observed_sizes s [] = []"
| "observed_sizes s ((w, l) # ticks) =
     (case s w of
        Inl err \<Rightarrow> observed_sizes s ticks
      | Inr (sz, _) \<Rightarrow> sz # observed_sizes s ticks)"

section \<open>The collaborators as the specification describes them\<close>

subsection \<open>What the properties ask of the collaborators\<close>

text \<open>
  The persistence layer gives back what was last written: after a write of \<open>n\<close> under
  \<open>path\<close> that returned no error, a read under \<open>path\<close> returns \<open>n\<close>.
\<close>

definition read_after_write :: "('fs, 't, 'n) collab \<Rightarrow> bool" where
  "read_after_write D \<longleftrightarrow>
     (\<forall>fs path n fs'. posix_WriteCheckpoint D fs path n = (None, fs')
        \<longrightarrow> posix_ReadCheckpoint D fs' path = Inr n)"

text \<open>
  The verifier matches the signer: both carry the same name, and a checkpoint of that
  origin, marshalled and signed with the signer, parses under the verifier to the
  checkpoint that was marshalled.
\<close>

definition verifier_matches ::
  "('fs, 't, 'n) collab \<Rightarrow> 't signer \<Rightarrow> 't verifier \<Rightarrow> bool" where
  "verifier_matches D s v \<longleftrightarrow>
     Verifier_Name v = Signer_Name s \<and>
     (\<forall>cp n. Origin cp = Signer_Name s
        \<longrightarrow> note_Sign D (Checkpoint_Marshal D cp) s = Inr n
        \<longrightarrow> f_log_ParseCheckpoint D n (Verifier_Name v) v = Inr cp)"

subsection \<open>The checkpoint codec and the checkpoint store\<close>

text \<open>
  Modelled from the spec: the signed note (\<^verbatim>\<open>golang.org/x/mod/sumdb/note\<close> and
  \<^verbatim>\<open>transparency-dev/formats/log\<close> are not among the sources). A signed note is a text
  body (origin, size and hash of the checkpoint) plus signatures, each identified by a key
  name and a hash prefix. The note is kept as parsed: the body by the checkpoint it
  marshals, and a byte string that is no note as \<open>Unparsable\<close>.
\<close>

record note_sig =
  sig_name :: string
  sig_hash :: "32 word"
  sig_bytes :: bytes

datatype signed_note = Unparsable bytes | Signed_Note checkpoint "note_sig list"

text \<open>
  Modelled from the spec: \<^verbatim>\<open>Checkpoint.Marshal\<close> (not among the sources), which puts
  origin, size and hash into the text body.
\<close>

definition spec_Marshal :: "checkpoint \<Rightarrow> checkpoint" where
  "spec_Marshal cp = cp"

text \<open>
  Modelled from the spec: \<^verbatim>\<open>note.Sign\<close> (not among the sources). It produces a signature
  with the signing key and returns the signed note, and fails if signing fails.
\<close>

definition spec_Sign :: "checkpoint \<Rightarrow> checkpoint signer \<Rightarrow> error + signed_note" where
  "spec_Sign text signer =
     (case Signer_Sign signer text of
        Inl err \<Rightarrow> Inl err
      | Inr sg \<Rightarrow>
          Inr (Signed_Note text
                 [\<lparr>sig_name = Signer_Name signer, sig_hash = Signer_KeyHash signer,
                   sig_bytes = sg\<rparr>]))"

text \<open>
  A signature line is the verifier's when it carries the verifier's key name and hash
  prefix, and it is valid when the verifier's key verifies it over the text.
\<close>

definition signed_by :: "'t verifier \<Rightarrow> 't \<Rightarrow> note_sig \<Rightarrow> bool" where
  "signed_by v text sg \<longleftrightarrow>
     sig_name sg = Verifier_Name v \<and> sig_hash sg = Verifier_KeyHash v \<and>
     Verifier_Verify v text (sig_bytes sg)"

text \<open>
  Modelled from the spec: \<^verbatim>\<open>f_log.ParseCheckpoint\<close> (not among the sources). It parses
  the note, checks that the expected verifying key's signature is present and valid, and
  checks that the declared origin equals the expected origin, with a distinct error for
  bytes that do not parse and for a signature that does not verify.
\<close>

definition spec_ParseCheckpoint ::
  "signed_note \<Rightarrow> string \<Rightarrow> checkpoint verifier \<Rightarrow> error + checkpoint" where
  "spec_ParseCheckpoint b origin v =
     (case b of
        Unparsable _ \<Rightarrow> Inl (Err ''malformed note'')
      | Signed_Note cp sigs \<Rightarrow>
          if \<not> list_ex (signed_by v cp) sigs
          then Inl (Err ''failed to verify signatures on checkpoint'')
          else if Origin cp \<noteq> origin then Inl (Err ''unexpected origin'')
          else Inr cp)"

text \<open>
  Modelled from the spec: \<^verbatim>\<open>posix.ReadCheckpoint\<close> and \<^verbatim>\<open>posix.WriteCheckpoint\<close> (package
  \<^verbatim>\<open>storage/posix\<close> is not among the sources) and \<^verbatim>\<open>os.MkdirAll\<close>. The persistence
  layer holds at most one checkpoint per log root; a read fails with the "no checkpoint"
  error when there is none, and a write replaces the previous checkpoint.
\<close>

type_synonym spec_fs = "string \<Rightarrow> signed_note option"

definition spec_ReadCheckpoint :: "spec_fs \<Rightarrow> string \<Rightarrow> error + signed_note" where
  "spec_ReadCheckpoint fs path =
     (case fs path of None \<Rightarrow> Inl (Err ''no checkpoint'') | Some b \<Rightarrow> Inr b)"

definition spec_WriteCheckpoint ::
  "spec_fs \<Rightarrow> string \<Rightarrow> signed_note \<Rightarrow> error option \<times> spec_fs" where
  "spec_WriteCheckpoint fs path n = (None, fs(path \<mapsto> n))"

definition spec_MkdirAll :: "spec_fs \<Rightarrow> string \<Rightarrow> nat \<Rightarrow> error option \<times> spec_fs" where
  "spec_MkdirAll fs path perm = (None, fs)"

definition spec_collab :: "(spec_fs, checkpoint, signed_note) collab" where
  "spec_collab =
     \<lparr>posix_ReadCheckpoint = spec_ReadCheckpoint,
      posix_WriteCheckpoint = spec_WriteCheckpoint,
      os_MkdirAll = spec_MkdirAll,
      Checkpoint_Marshal = spec_Marshal,
      note_Sign = spec_Sign,
      f_log_ParseCheckpoint = spec_ParseCheckpoint\<rparr>"

subsection \<open>Example keys and stores\<close>

text \<open>
  A key pair named as the default flags name theirs, a verifier of another log, a verifier
  with the name and key hash of the pair but another key, a signer whose key cannot sign,
  and the store of a fresh log. In these examples the signature of
  a text under a key is the key's tag followed by the hash line of the text.
\<close>

definition example_signer :: "checkpoint signer" where
  "example_signer =
     \<lparr>Signer_Name = ''Test-Betty'', Signer_KeyHash = 0xdf84580a,
      Signer_Sign = (\<lambda>text. Inr (''k1:'' @ Hash text))\<rparr>"

definition example_verifier :: "checkpoint verifier" where
  "example_verifier =
     \<lparr>Verifier_Name = ''Test-Betty'', Verifier_KeyHash = 0xdf84580a,
      Verifier_Verify = (\<lambda>text sg. sg = ''k1:'' @ Hash text)\<rparr>"

definition other_verifier :: "checkpoint verifier" where
  "other_verifier =
     \<lparr>Verifier_Name = ''Other-Log'', Verifier_KeyHash = 0x01020304,
      Verifier_Verify = (\<lambda>text sg. sg = ''k2:'' @ Hash text)\<rparr>"

definition wrong_key_verifier :: "checkpoint verifier" where
  "wrong_key_verifier =
     \<lparr>Verifier_Name = ''Test-Betty'', Verifier_KeyHash = 0xdf84580a,
      Verifier_Verify = (\<lambda>text sg. sg = ''k2:'' @ Hash text)\<rparr>"

definition broken_signer :: "checkpoint signer" where
  "broken_signer =
     \<lparr>Signer_Name = ''Test-Betty'', Signer_KeyHash = 0xdf84580a,
      Signer_Sign = (\<lambda>text. Inl (Err ''cannot sign''))\<rparr>"

definition fresh_fs :: spec_fs where
  "fresh_fs = (\<lambda>path. None)"

text \<open>
  The note that \<open>example_signer\<close> signs for the empty log, a note under its key whose
  checkpoint declares another origin, and a store whose checkpoint file is no note.
\<close>

definition empty_note :: signed_note where
  "empty_note =
     Signed_Note \<lparr>Origin = ''Test-Betty'', Size = 0, Hash = ''Empty''\<rparr>
       [\<lparr>sig_name = ''Test-Betty'', sig_hash = 0xdf84580a, sig_bytes = ''k1:Empty''\<rparr>]"

definition foreign_note :: signed_note where
  "foreign_note =
     Signed_Note \<lparr>Origin = ''Other-Log'', Size = 3, Hash = ''root''\<rparr>
       [\<lparr>sig_name = ''Test-Betty'', sig_hash = 0xdf84580a, sig_bytes = ''k1:root''\<rparr>]"

definition unparsable_fs :: spec_fs where
  "unparsable_fs = fresh_fs(''/tmp/log'' \<mapsto> Unparsable ''junk'')"

text \<open>
  Two storage engines behind \<^verbatim>\<open>Sequence\<close>: one that hands out the indices 0, 1, 2, ...
  and one that always fails.
\<close>

definition counting_storage :: "nat \<Rightarrow> bytes \<Rightarrow> (error + uint64) \<times> nat" where
  "counting_storage st b = (Inr (of_nat st), Suc st)"

definition failing_storage :: "nat \<Rightarrow> bytes \<Rightarrow> (error + uint64) \<times> nat" where
  "failing_storage st b = (Inl (Err ''disk full''), st)"

text \<open>
  For the stats reporter: a tree accessor whose world is the result it returns, and a
  rendering of durations in nanoseconds.
\<close>

definition example_tree :: "error + (uint64 \<times> bytes) \<Rightarrow> error + (uint64 \<times> bytes)" where
  "example_tree w = w"

definition example_fmt_v :: "Duration \<Rightarrow> string" where
  "example_fmt_v d = fmt_d (unat d) @ ''ns''"

section \<open>Properties\<close>

subsection \<open>Auxiliary facts\<close>

lemma int64_div_400ms_2: "int64_div 400000000 2 = 200000000"
  by (simp add: int64_div_def)

lemma lat_n_Add: "lat_n (latency_Add l d) = lat_n l + 1"
  by (simp add: latency_Add_def Let_def)

lemma fmt_d_digits: "fmt_d 0 = ''0''" "fmt_d 2 = ''2''" "fmt_d 7 = ''7''"
  by code_simp+

text \<open>When the two closures succeed.\<close>

lemma currentTree_Inr_iff:
  "currentTree D path verifier fs = Inr (sz, hash) \<longleftrightarrow>
     (\<exists>b cp. posix_ReadCheckpoint D fs path = Inr b
        \<and> f_log_ParseCheckpoint D b (Verifier_Name verifier) verifier = Inr cp
        \<and> Size cp = sz \<and> Hash cp = hash)"
  by (auto simp: currentTree_def split: sum.splits)

lemma newTree_None_iff:
  "newTree D path signer sz hash fs = (None, fs') \<longleftrightarrow>
     (\<exists>n. note_Sign D (Checkpoint_Marshal D
              \<lparr>Origin = Signer_Name signer, Size = sz, Hash = hash\<rparr>) signer = Inr n
        \<and> posix_WriteCheckpoint D fs path n = (None, fs'))"
  by (auto simp: newTree_def Let_def split: sum.splits)

text \<open>The collaborators of the specification.\<close>

lemma spec_collab_simps:
  "posix_ReadCheckpoint spec_collab = spec_ReadCheckpoint"
  "posix_WriteCheckpoint spec_collab = spec_WriteCheckpoint"
  "os_MkdirAll spec_collab = spec_MkdirAll"
  "Checkpoint_Marshal spec_collab = spec_Marshal"
  "note_Sign spec_collab = spec_Sign"
  "f_log_ParseCheckpoint spec_collab = spec_ParseCheckpoint"
  by (simp_all add: spec_collab_def)

lemma spec_read_after_write: "read_after_write spec_collab"
  by (auto simp: read_after_write_def spec_collab_simps spec_WriteCheckpoint_def
      spec_ReadCheckpoint_def)

text \<open>
  In the codec of the specification a verifier matches a signer when it has the signer's
  name and key hash and its key verifies what the signer's key signs.
\<close>

lemma spec_verifier_matches:
  assumes "Verifier_Name v = Signer_Name s" "Verifier_KeyHash v = Signer_KeyHash s"
    and "\<And>text sg. Signer_Sign s text = Inr sg \<Longrightarrow> Verifier_Verify v text sg"
  shows "verifier_matches spec_collab s v"
  using assms
  by (auto simp: verifier_matches_def spec_collab_simps spec_Sign_def spec_Marshal_def
      spec_ParseCheckpoint_def signed_by_def split: sum.splits)

lemma spec_currentTree_Inr_iff:
  "currentTree spec_collab path v fs = Inr (sz, hash) \<longleftrightarrow>
     (\<exists>cp sigs. fs path = Some (Signed_Note cp sigs)
        \<and> list_ex (signed_by v cp) sigs \<and> Origin cp = Verifier_Name v
        \<and> Size cp = sz \<and> Hash cp = hash)"
  by (auto simp: currentTree_def spec_collab_simps spec_ReadCheckpoint_def
      spec_ParseCheckpoint_def split: option.splits signed_note.splits)

text \<open>The examples.\<close>

lemma example_keys_match: "verifier_matches spec_collab example_signer example_verifier"
  by (rule spec_verifier_matches) (simp_all add: example_signer_def example_verifier_def)

lemma example_newTree_empty:
  "newTree spec_collab ''/tmp/log'' example_signer 0 ''Empty'' fresh_fs
     = (None, fresh_fs(''/tmp/log'' \<mapsto> empty_note))"
  by (simp add: newTree_def spec_collab_simps spec_Sign_def spec_Marshal_def
      spec_WriteCheckpoint_def example_signer_def empty_note_def)

lemma example_currentTree_fresh:
  "currentTree spec_collab ''/tmp/log'' example_verifier fresh_fs
     = Inl (Err ''ReadCheckpoint: no checkpoint'')"
  by (simp add: currentTree_def spec_collab_simps spec_ReadCheckpoint_def fresh_fs_def)

lemma example_currentTree_empty_note:
  "currentTree spec_collab ''/tmp/log'' example_verifier (fresh_fs(''/tmp/log'' \<mapsto> empty_note))
     = Inr (0, ''Empty'')"
  by (simp add: currentTree_def spec_collab_simps spec_ReadCheckpoint_def empty_note_def
      spec_ParseCheckpoint_def signed_by_def example_verifier_def)

text \<open>The loop of the stats reporter, tick by tick.\<close>

lemma printStats_loop_snoc:
  "printStats_loop fmt_v s lastSize out (ticks @ [t]) =
     (case printStats_loop fmt_v s lastSize out ticks of
        (lastSize', out') \<Rightarrow> printStats_loop fmt_v s lastSize' out' [t])"
proof (induction ticks arbitrary: lastSize out)
  case Nil
  then show ?case by simp
next
  case (Cons a ticks)
  obtain w l where a: "a = (w, l)" by (cases a)
  show ?case
    by (cases "s w") (simp_all add: a Cons.IH Let_def split: prod.splits)
qed

lemma printStats_loop_lastSize:
  "fst (printStats_loop fmt_v s lastSize out ticks) = last (lastSize # observed_sizes s ticks)"
proof (induction ticks arbitrary: lastSize out)
  case Nil
  then show ?case by simp
next
  case (Cons a ticks)
  obtain w l where a: "a = (w, l)" by (cases a)
  show ?case
    by (cases "s w") (auto simp: a Cons.IH Let_def split: prod.splits)
qed

text \<open>While every size read is 0, the loop logs nothing but the failed reads.\<close>

lemma printStats_loop_quiet:
  assumes "lastSize = 0" "\<forall>z \<in> set (observed_sizes s ticks). z = 0"
  shows "snd (printStats_loop fmt_v s lastSize out ticks) = out @
           map (\<lambda>err. Errorf (''Failed to get checkpoint: '' @ Error err))
             (concat (map (\<lambda>(w, l). case s w of Inl err \<Rightarrow> [err] | Inr _ \<Rightarrow> []) ticks))"
  using assms
proof (induction ticks arbitrary: out)
  case Nil
  then show ?case by simp
next
  case (Cons a ticks)
  obtain w l where a: "a = (w, l)" by (cases a)
  show ?case
  proof (cases "s w")
    case (Inl err)
    with Cons.prems have "\<forall>z \<in> set (observed_sizes s ticks). z = 0"
      by (simp add: a)
    with Cons.IH [OF Cons.prems(1)] show ?thesis
      by (simp add: a Inl)
  next
    case (Inr r)
    obtain sz h where r: "r = (sz, h)" by (cases r)
    with Cons.prems Inr have "sz = 0" "\<forall>z \<in> set (observed_sizes s ticks). z = 0"
      by (simp_all add: a)
    with Cons.IH [OF Cons.prems(1)] Cons.prems(1) show ?thesis
      by (simp add: a Inr r)
  qed
qed

subsection \<open>Publishing and reading back\<close>

text \<open>
  C1. For every size and hash: once \<^verbatim>\<open>newTree\<close> has published the checkpoint with a
  signer, \<^verbatim>\<open>currentTree\<close> over the matching verifier returns exactly that size and hash,
  and no error. The persistence layer is taken to give back what was written, and the
  codec to parse, under the matching verifier, what it signed.
\<close>

theorem newTree_currentTree_roundtrip:
  assumes raw: "read_after_write D"
    and match: "verifier_matches D signer verifier"
    and pub: "newTree D path signer sz hash fs = (None, fs')"
  shows "currentTree D path verifier fs' = Inr (sz, hash)"
proof -
  let ?cp = "\<lparr>Origin = Signer_Name signer, Size = sz, Hash = hash\<rparr>"
  from pub obtain n where
    sign: "note_Sign D (Checkpoint_Marshal D ?cp) signer = Inr n" and
    wr: "posix_WriteCheckpoint D fs path n = (None, fs')"
    unfolding newTree_None_iff by blast
  from raw wr have rd: "posix_ReadCheckpoint D fs' path = Inr n"
    unfolding read_after_write_def by blast
  from match have "Origin ?cp = Signer_Name signer
      \<longrightarrow> note_Sign D (Checkpoint_Marshal D ?cp) signer = Inr n
      \<longrightarrow> f_log_ParseCheckpoint D n (Verifier_Name verifier) verifier = Inr ?cp"
    unfolding verifier_matches_def by blast
  with sign have "f_log_ParseCheckpoint D n (Verifier_Name verifier) verifier = Inr ?cp"
    by simp
  with rd show ?thesis
    by (simp add: currentTree_def)
qed

theorem newTree_currentTree_roundtrip_witness:
  "read_after_write spec_collab
   \<and> verifier_matches spec_collab example_signer example_verifier
   \<and> newTree spec_collab ''/tmp/log'' example_signer 5 ''root'' fresh_fs
       = (None, fresh_fs(''/tmp/log'' \<mapsto>
            Signed_Note \<lparr>Origin = ''Test-Betty'', Size = 5, Hash = ''root''\<rparr>
              [\<lparr>sig_name = ''Test-Betty'', sig_hash = 0xdf84580a, sig_bytes = ''k1:root''\<rparr>]))
   \<and> currentTree spec_collab ''/tmp/log'' example_verifier
        (fresh_fs(''/tmp/log'' \<mapsto>
            Signed_Note \<lparr>Origin = ''Test-Betty'', Size = 5, Hash = ''root''\<rparr>
              [\<lparr>sig_name = ''Test-Betty'', sig_hash = 0xdf84580a, sig_bytes = ''k1:root''\<rparr>]))
       = Inr (5, ''root'')"
proof -
  have pub: "newTree spec_collab ''/tmp/log'' example_signer 5 ''root'' fresh_fs
       = (None, fresh_fs(''/tmp/log'' \<mapsto>
            Signed_Note \<lparr>Origin = ''Test-Betty'', Size = 5, Hash = ''root''\<rparr>
              [\<lparr>sig_name = ''Test-Betty'', sig_hash = 0xdf84580a, sig_bytes = ''k1:root''\<rparr>]))"
    by (simp add: newTree_def spec_collab_simps spec_Sign_def spec_Marshal_def
        spec_WriteCheckpoint_def example_signer_def)
  from newTree_currentTree_roundtrip [OF spec_read_after_write example_keys_match pub]
  show ?thesis using pub spec_read_after_write example_keys_match by simp
qed

subsection \<open>Errors of currentTree\<close>

text \<open>
  C2, as stated, fails: when \<^verbatim>\<open>posix.ReadCheckpoint\<close> fails, the closure does not return
  that error but a new one. On a fresh store the read fails with "no checkpoint" and
  the closure returns "ReadCheckpoint: no checkpoint".
\<close>

theorem currentTree_read_error_counterexample:
  "posix_ReadCheckpoint spec_collab fresh_fs ''/tmp/log'' = Inl (Err ''no checkpoint'')
   \<and> currentTree spec_collab ''/tmp/log'' example_verifier fresh_fs
       = Inl (Err ''ReadCheckpoint: no checkpoint'')
   \<and> currentTree spec_collab ''/tmp/log'' example_verifier fresh_fs
       \<noteq> Inl (Err ''no checkpoint'')"
  by (simp add: currentTree_def spec_collab_simps spec_ReadCheckpoint_def fresh_fs_def)

text \<open>
  C2, amended. Whenever \<^verbatim>\<open>posix.ReadCheckpoint\<close> fails with an error, the closure returns
  a new error whose text is "ReadCheckpoint: " followed by the text of the read error,
  which is never the read error itself; an error of \<^verbatim>\<open>f_log.ParseCheckpoint\<close> is
  returned as it is.
\<close>

theorem currentTree_read_error_prefixed:
  "(posix_ReadCheckpoint D fs path = Inl err \<longrightarrow>
      currentTree D path verifier fs = Inl (Err (''ReadCheckpoint: '' @ Error err))
      \<and> currentTree D path verifier fs \<noteq> Inl err)
   \<and> (posix_ReadCheckpoint D fs path = Inr b \<longrightarrow>
        f_log_ParseCheckpoint D b (Verifier_Name verifier) verifier = Inl perr \<longrightarrow>
        currentTree D path verifier fs = Inl perr)"
proof -
  have "Err (''ReadCheckpoint: '' @ Error err) \<noteq> err"
    by (cases err) simp
  then show ?thesis
    by (simp add: currentTree_def)
qed

theorem currentTree_read_error_prefixed_witness:
  "posix_ReadCheckpoint spec_collab fresh_fs ''/tmp/log'' = Inl (Err ''no checkpoint'')
   \<and> currentTree spec_collab ''/tmp/log'' example_verifier fresh_fs
       = Inl (Err ''ReadCheckpoint: no checkpoint'')
   \<and> posix_ReadCheckpoint spec_collab unparsable_fs ''/tmp/log'' = Inr (Unparsable ''junk'')
   \<and> f_log_ParseCheckpoint spec_collab (Unparsable ''junk'') (Verifier_Name example_verifier)
        example_verifier = Inl (Err ''malformed note'')
   \<and> currentTree spec_collab ''/tmp/log'' example_verifier unparsable_fs
       = Inl (Err ''malformed note'')"
proof -
  have rd: "posix_ReadCheckpoint spec_collab fresh_fs ''/tmp/log'' = Inl (Err ''no checkpoint'')"
    by (simp add: spec_collab_simps spec_ReadCheckpoint_def fresh_fs_def)
  have rd': "posix_ReadCheckpoint spec_collab unparsable_fs ''/tmp/log''
      = Inr (Unparsable ''junk'')"
    by (simp add: spec_collab_simps spec_ReadCheckpoint_def unparsable_fs_def)
  have ps: "f_log_ParseCheckpoint spec_collab (Unparsable ''junk'')
      (Verifier_Name example_verifier) example_verifier = Inl (Err ''malformed note'')"
    by (simp add: spec_collab_simps spec_ParseCheckpoint_def)
  from currentTree_read_error_prefixed
    [where D = spec_collab and fs = fresh_fs and path = "''/tmp/log''"
       and err = "Err ''no checkpoint''" and verifier = example_verifier]
    currentTree_read_error_prefixed
    [where D = spec_collab and fs = unparsable_fs and path = "''/tmp/log''"
       and verifier = example_verifier and b = "Unparsable ''junk''"
       and perr = "Err ''malformed note''"]
  show ?thesis using rd rd' ps by simp
qed

text \<open>
  C6. Whatever bytes the checkpoint file holds: when none of the signatures on the note is
  a valid signature of the verifier's key (each carries another key name or another key
  hash, or does not verify under the key), or when the origin the checkpoint declares is
  not the verifier's name, the closure returns an error and no size and hash.
\<close>

theorem currentTree_rejects_mismatched_key:
  assumes rd: "posix_ReadCheckpoint spec_collab fs path = Inr (Signed_Note cp sigs)"
    and mismatch:
      "(\<forall>sg \<in> set sigs. sig_name sg \<noteq> Verifier_Name v \<or> sig_hash sg \<noteq> Verifier_KeyHash v
          \<or> \<not> Verifier_Verify v cp (sig_bytes sg))
       \<or> Origin cp \<noteq> Verifier_Name v"
  shows "(\<exists>err. currentTree spec_collab path v fs = Inl err)
         \<and> currentTree spec_collab path v fs \<noteq> Inr (sz, hash)"
proof -
  from mismatch have "\<not> list_ex (signed_by v cp) sigs \<or> Origin cp \<noteq> Verifier_Name v"
    by (auto simp: list_ex_iff signed_by_def)
  with rd show ?thesis
    by (auto simp: currentTree_def spec_collab_simps spec_ParseCheckpoint_def)
qed

theorem currentTree_rejects_mismatched_key_witness:
  "newTree spec_collab ''/tmp/log'' example_signer 0 ''Empty'' fresh_fs
     = (None, fresh_fs(''/tmp/log'' \<mapsto> empty_note))
   \<and> posix_ReadCheckpoint spec_collab (fresh_fs(''/tmp/log'' \<mapsto> empty_note)) ''/tmp/log''
       = Inr (Signed_Note \<lparr>Origin = ''Test-Betty'', Size = 0, Hash = ''Empty''\<rparr>
           [\<lparr>sig_name = ''Test-Betty'', sig_hash = 0xdf84580a, sig_bytes = ''k1:Empty''\<rparr>])
   \<and> sig_name \<lparr>sig_name = ''Test-Betty'', sig_hash = 0xdf84580a, sig_bytes = ''k1:Empty''\<rparr>
       \<noteq> Verifier_Name other_verifier
   \<and> currentTree spec_collab ''/tmp/log'' other_verifier (fresh_fs(''/tmp/log'' \<mapsto> empty_note))
       = Inl (Err ''failed to verify signatures on checkpoint'')
   \<and> \<not> Verifier_Verify wrong_key_verifier
         \<lparr>Origin = ''Test-Betty'', Size = 0, Hash = ''Empty''\<rparr> ''k1:Empty''
   \<and> currentTree spec_collab ''/tmp/log'' wrong_key_verifier
        (fresh_fs(''/tmp/log'' \<mapsto> empty_note))
       = Inl (Err ''failed to verify signatures on checkpoint'')
   \<and> posix_ReadCheckpoint spec_collab (fresh_fs(''/tmp/log'' \<mapsto> foreign_note)) ''/tmp/log''
       = Inr (Signed_Note \<lparr>Origin = ''Other-Log'', Size = 3, Hash = ''root''\<rparr>
           [\<lparr>sig_name = ''Test-Betty'', sig_hash = 0xdf84580a, sig_bytes = ''k1:root''\<rparr>])
   \<and> Origin \<lparr>Origin = ''Other-Log'', Size = 3, Hash = ''root''\<rparr>
       \<noteq> Verifier_Name example_verifier
   \<and> currentTree spec_collab ''/tmp/log'' example_verifier
        (fresh_fs(''/tmp/log'' \<mapsto> foreign_note))
       = Inl (Err ''unexpected origin'')"
proof -
  let ?cp = "\<lparr>Origin = ''Test-Betty'', Size = 0, Hash = ''Empty''\<rparr>"
  let ?sg = "\<lparr>sig_name = ''Test-Betty'', sig_hash = 0xdf84580a, sig_bytes = ''k1:Empty''\<rparr>"
  let ?cp' = "\<lparr>Origin = ''Other-Log'', Size = 3, Hash = ''root''\<rparr>"
  let ?sg' = "\<lparr>sig_name = ''Test-Betty'', sig_hash = 0xdf84580a, sig_bytes = ''k1:root''\<rparr>"
  have rd: "posix_ReadCheckpoint spec_collab (fresh_fs(''/tmp/log'' \<mapsto> empty_note)) ''/tmp/log''
       = Inr (Signed_Note ?cp [?sg])"
    by (simp add: spec_collab_simps spec_ReadCheckpoint_def empty_note_def)
  have rd': "posix_ReadCheckpoint spec_collab (fresh_fs(''/tmp/log'' \<mapsto> foreign_note)) ''/tmp/log''
       = Inr (Signed_Note ?cp' [?sg'])"
    by (simp add: spec_collab_simps spec_ReadCheckpoint_def foreign_note_def)
  have name: "(\<forall>sg \<in> set [?sg].
          sig_name sg \<noteq> Verifier_Name other_verifier
          \<or> sig_hash sg \<noteq> Verifier_KeyHash other_verifier
          \<or> \<not> Verifier_Verify other_verifier ?cp (sig_bytes sg))
       \<or> Origin ?cp \<noteq> Verifier_Name other_verifier"
    by (simp add: other_verifier_def)
  have key: "(\<forall>sg \<in> set [?sg].
          sig_name sg \<noteq> Verifier_Name wrong_key_verifier
          \<or> sig_hash sg \<noteq> Verifier_KeyHash wrong_key_verifier
          \<or> \<not> Verifier_Verify wrong_key_verifier ?cp (sig_bytes sg))
       \<or> Origin ?cp \<noteq> Verifier_Name wrong_key_verifier"
    by (simp add: wrong_key_verifier_def)
  have origin: "(\<forall>sg \<in> set [?sg'].
          sig_name sg \<noteq> Verifier_Name example_verifier
          \<or> sig_hash sg \<noteq> Verifier_KeyHash example_verifier
          \<or> \<not> Verifier_Verify example_verifier ?cp' (sig_bytes sg))
       \<or> Origin ?cp' \<noteq> Verifier_Name example_verifier"
    by (simp add: example_verifier_def)
  have ct: "currentTree spec_collab ''/tmp/log'' other_verifier
        (fresh_fs(''/tmp/log'' \<mapsto> empty_note))
       = Inl (Err ''failed to verify signatures on checkpoint'')"
    "currentTree spec_collab ''/tmp/log'' wrong_key_verifier
        (fresh_fs(''/tmp/log'' \<mapsto> empty_note))
       = Inl (Err ''failed to verify signatures on checkpoint'')"
    "currentTree spec_collab ''/tmp/log'' example_verifier
        (fresh_fs(''/tmp/log'' \<mapsto> foreign_note))
       = Inl (Err ''unexpected origin'')"
    by (simp_all add: currentTree_def spec_collab_simps spec_ReadCheckpoint_def empty_note_def
        foreign_note_def spec_ParseCheckpoint_def signed_by_def other_verifier_def
        wrong_key_verifier_def example_verifier_def)
  from currentTree_rejects_mismatched_key [OF rd name]
    currentTree_rejects_mismatched_key [OF rd key]
    currentTree_rejects_mismatched_key [OF rd' origin]
  show ?thesis using rd rd' ct example_newTree_empty
    by (simp add: other_verifier_def wrong_key_verifier_def example_verifier_def)
qed

subsection \<open>The checkpoints published and accepted\<close>

text \<open>
  C7. The checkpoint that \<^verbatim>\<open>newTree\<close> marshals, signs and writes declares the signer's
  name as its origin, so the note it leaves in the store does; and \<^verbatim>\<open>currentTree\<close>
  returns a size and hash only for a note whose checkpoint declares the verifier's name
  as its origin and which carries a signature, under the verifier's key name and key
  hash, that the verifier's key verifies.
\<close>

theorem checkpoint_validity:
  "(newTree D path signer sz hash fs = (None, fs') \<longrightarrow>
      (\<exists>n. note_Sign D (Checkpoint_Marshal D
               \<lparr>Origin = Signer_Name signer, Size = sz, Hash = hash\<rparr>) signer = Inr n
          \<and> posix_WriteCheckpoint D fs path n = (None, fs')))
   \<and> (newTree spec_collab path s sz hash sfs = (None, sfs') \<longrightarrow>
        (\<exists>sigs. sfs' path
           = Some (Signed_Note \<lparr>Origin = Signer_Name s, Size = sz, Hash = hash\<rparr> sigs)))
   \<and> (currentTree spec_collab path v vfs = Inr (vsz, vhash) \<longrightarrow>
        (\<exists>cp sigs. vfs path = Some (Signed_Note cp sigs)
           \<and> Origin cp = Verifier_Name v
           \<and> (\<exists>sg \<in> set sigs. sig_name sg = Verifier_Name v
                 \<and> sig_hash sg = Verifier_KeyHash v
                 \<and> Verifier_Verify v cp (sig_bytes sg))
           \<and> Size cp = vsz \<and> Hash cp = vhash))"
proof (intro conjI impI)
  assume "newTree D path signer sz hash fs = (None, fs')"
  then show "\<exists>n. note_Sign D (Checkpoint_Marshal D
               \<lparr>Origin = Signer_Name signer, Size = sz, Hash = hash\<rparr>) signer = Inr n
          \<and> posix_WriteCheckpoint D fs path n = (None, fs')"
    unfolding newTree_None_iff .
next
  assume "newTree spec_collab path s sz hash sfs = (None, sfs')"
  then show "\<exists>sigs. sfs' path
           = Some (Signed_Note \<lparr>Origin = Signer_Name s, Size = sz, Hash = hash\<rparr> sigs)"
    by (auto simp: newTree_def Let_def spec_collab_simps spec_Sign_def spec_Marshal_def
        spec_WriteCheckpoint_def split: sum.splits)
next
  assume "currentTree spec_collab path v vfs = Inr (vsz, vhash)"
  then show "\<exists>cp sigs. vfs path = Some (Signed_Note cp sigs)
           \<and> Origin cp = Verifier_Name v
           \<and> (\<exists>sg \<in> set sigs. sig_name sg = Verifier_Name v
                 \<and> sig_hash sg = Verifier_KeyHash v
                 \<and> Verifier_Verify v cp (sig_bytes sg))
           \<and> Size cp = vsz \<and> Hash cp = vhash"
    unfolding spec_currentTree_Inr_iff list_ex_iff signed_by_def by blast
qed

theorem checkpoint_validity_witness:
  "newTree spec_collab ''/tmp/log'' example_signer 0 ''Empty'' fresh_fs
     = (None, fresh_fs(''/tmp/log'' \<mapsto> empty_note))
   \<and> (\<exists>n. note_Sign spec_collab (Checkpoint_Marshal spec_collab
            \<lparr>Origin = Signer_Name example_signer, Size = 0, Hash = ''Empty''\<rparr>) example_signer
            = Inr n
        \<and> posix_WriteCheckpoint spec_collab fresh_fs ''/tmp/log'' n
            = (None, fresh_fs(''/tmp/log'' \<mapsto> empty_note)))
   \<and> (\<exists>sigs. (fresh_fs(''/tmp/log'' \<mapsto> empty_note)) ''/tmp/log''
         = Some (Signed_Note \<lparr>Origin = Signer_Name example_signer, Size = 0, Hash = ''Empty''\<rparr>
             sigs))
   \<and> currentTree spec_collab ''/tmp/log'' example_verifier (fresh_fs(''/tmp/log'' \<mapsto> empty_note))
       = Inr (0, ''Empty'')
   \<and> (\<exists>cp sigs. (fresh_fs(''/tmp/log'' \<mapsto> empty_note)) ''/tmp/log'' = Some (Signed_Note cp sigs)
         \<and> Origin cp = Verifier_Name example_verifier
         \<and> (\<exists>sg \<in> set sigs. sig_name sg = Verifier_Name example_verifier
               \<and> sig_hash sg = Verifier_KeyHash example_verifier
               \<and> Verifier_Verify example_verifier cp (sig_bytes sg))
         \<and> Size cp = 0 \<and> Hash cp = ''Empty'')"
  using checkpoint_validity [where D = spec_collab and path = "''/tmp/log''"
      and signer = example_signer and s = example_signer and sz = 0 and hash = "''Empty''"
      and fs = fresh_fs and fs' = "fresh_fs(''/tmp/log'' \<mapsto> empty_note)"
      and sfs = fresh_fs and sfs' = "fresh_fs(''/tmp/log'' \<mapsto> empty_note)"
      and v = example_verifier and vfs = "fresh_fs(''/tmp/log'' \<mapsto> empty_note)"
      and vsz = 0 and vhash = "''Empty''"]
    example_newTree_empty example_currentTree_empty_note
  by simp

text \<open>
  C9. For every size and hash: when signing the marshalled checkpoint fails, the closure
  of \<^verbatim>\<open>newTree\<close> returns that error and leaves the file system as it was, whatever
  \<^verbatim>\<open>posix.WriteCheckpoint\<close> would have done.
\<close>

theorem newTree_sign_error:
  assumes "note_Sign D (Checkpoint_Marshal D
             \<lparr>Origin = Signer_Name signer, Size = sz, Hash = hash\<rparr>) signer = Inl err"
  shows "newTree D path signer sz hash fs = (Some err, fs)
         \<and> newTree (D\<lparr>posix_WriteCheckpoint := W\<rparr>) path signer sz hash fs = (Some err, fs)"
  using assms by (simp add: newTree_def)

theorem newTree_sign_error_witness:
  "note_Sign spec_collab
     (Checkpoint_Marshal spec_collab
        \<lparr>Origin = Signer_Name broken_signer, Size = 7, Hash = ''root''\<rparr>)
     broken_signer = Inl (Err ''cannot sign'')
   \<and> newTree spec_collab ''/tmp/log'' broken_signer 7 ''root'' fresh_fs
       = (Some (Err ''cannot sign''), fresh_fs)"
proof -
  have sg: "note_Sign spec_collab
     (Checkpoint_Marshal spec_collab
        \<lparr>Origin = Signer_Name broken_signer, Size = 7, Hash = ''root''\<rparr>)
     broken_signer = Inl (Err ''cannot sign'')"
    by (simp add: spec_collab_simps spec_Sign_def broken_signer_def)
  from newTree_sign_error [OF sg, of "''/tmp/log''" fresh_fs] sg
  show ?thesis by simp
qed

subsection \<open>Startup\<close>

text \<open>
  C3. At startup, when \<^verbatim>\<open>ct()\<close> fails, for whatever reason, \<^verbatim>\<open>main\<close> calls
  \<^verbatim>\<open>nt(0, "Empty")\<close>: if that fails the process exits, and otherwise it goes on with the
  store that \<^verbatim>\<open>nt\<close> left. So when startup goes on, the store holds a checkpoint: one that
  the verifier accepts, or the empty checkpoint of size 0 as the signer signed it. The
  persistence layer is taken to give back what was written.
\<close>

theorem main_startup_initialises:
  assumes raw: "read_after_write D"
  shows "(os_MkdirAll D fs path 493 = (None, fsm) \<longrightarrow> currentTree D path vKey fsm = Inl err \<longrightarrow>
            main_startup D path sKey vKey fs =
              (case newTree D path sKey 0 ''Empty'' fsm of
                 (Some err', fs2) \<Rightarrow>
                   Exited [Infof (''ct: '' @ Error err),
                           Exitf (''Failed to initialise log: '' @ Error err')] fs2
               | (None, fs2) \<Rightarrow> Running [Infof (''ct: '' @ Error err)] fs2))
         \<and> (main_startup D path sKey vKey fs = Running out fs' \<longrightarrow>
              (\<exists>n. posix_ReadCheckpoint D fs' path = Inr n \<and>
                 ((\<exists>cp. f_log_ParseCheckpoint D n (Verifier_Name vKey) vKey = Inr cp)
                  \<or> note_Sign D (Checkpoint_Marshal D
                        \<lparr>Origin = Signer_Name sKey, Size = 0, Hash = ''Empty''\<rparr>) sKey = Inr n)))"
proof (intro conjI impI)
  assume "os_MkdirAll D fs path 493 = (None, fsm)" "currentTree D path vKey fsm = Inl err"
  then show "main_startup D path sKey vKey fs =
              (case newTree D path sKey 0 ''Empty'' fsm of
                 (Some err', fs2) \<Rightarrow>
                   Exited [Infof (''ct: '' @ Error err),
                           Exitf (''Failed to initialise log: '' @ Error err')] fs2
               | (None, fs2) \<Rightarrow> Running [Infof (''ct: '' @ Error err)] fs2)"
    by (simp add: main_startup_def split: prod.splits option.splits)
next
  assume run: "main_startup D path sKey vKey fs = Running out fs'"
  obtain e fsm where mk: "os_MkdirAll D fs path 493 = (e, fsm)"
    by (cases "os_MkdirAll D fs path 493")
  from run mk have e: "e = None"
    by (cases e) (simp_all add: main_startup_def)
  show "\<exists>n. posix_ReadCheckpoint D fs' path = Inr n \<and>
          ((\<exists>cp. f_log_ParseCheckpoint D n (Verifier_Name vKey) vKey = Inr cp)
           \<or> note_Sign D (Checkpoint_Marshal D
                 \<lparr>Origin = Signer_Name sKey, Size = 0, Hash = ''Empty''\<rparr>) sKey = Inr n)"
  proof (cases "currentTree D path vKey fsm")
    case (Inr r)
    with run mk e have "fs' = fsm"
      by (simp add: main_startup_def)
    moreover obtain sz hash where "r = (sz, hash)"
      by (cases r)
    ultimately have "currentTree D path vKey fs' = Inr (sz, hash)"
      using Inr by simp
    then show ?thesis
      unfolding currentTree_Inr_iff by blast
  next
    case (Inl err)
    with run mk e have nt: "newTree D path sKey 0 ''Empty'' fsm = (None, fs')"
      by (auto simp: main_startup_def split: prod.splits option.splits)
    then obtain n where
      sign: "note_Sign D (Checkpoint_Marshal D
               \<lparr>Origin = Signer_Name sKey, Size = 0, Hash = ''Empty''\<rparr>) sKey = Inr n" and
      wr: "posix_WriteCheckpoint D fsm path n = (None, fs')"
      unfolding newTree_None_iff by blast
    from raw wr have "posix_ReadCheckpoint D fs' path = Inr n"
      unfolding read_after_write_def by blast
    with sign show ?thesis by blast
  qed
qed

theorem main_startup_initialises_witness:
  "read_after_write spec_collab
   \<and> os_MkdirAll spec_collab fresh_fs ''/tmp/log'' 493 = (None, fresh_fs)
   \<and> currentTree spec_collab ''/tmp/log'' example_verifier fresh_fs
       = Inl (Err ''ReadCheckpoint: no checkpoint'')
   \<and> main_startup spec_collab ''/tmp/log'' example_signer example_verifier fresh_fs
       = Running [Infof ''ct: ReadCheckpoint: no checkpoint'']
           (fresh_fs(''/tmp/log'' \<mapsto> empty_note))
   \<and> posix_ReadCheckpoint spec_collab (fresh_fs(''/tmp/log'' \<mapsto> empty_note)) ''/tmp/log''
       = Inr empty_note
   \<and> note_Sign spec_collab (Checkpoint_Marshal spec_collab
        \<lparr>Origin = Signer_Name example_signer, Size = 0, Hash = ''Empty''\<rparr>) example_signer
       = Inr empty_note
   \<and> main_startup spec_collab ''/tmp/log'' broken_signer example_verifier fresh_fs
       = Exited [Infof ''ct: ReadCheckpoint: no checkpoint'',
                 Exitf ''Failed to initialise log: cannot sign''] fresh_fs"
proof -
  have mk: "os_MkdirAll spec_collab fresh_fs ''/tmp/log'' 493 = (None, fresh_fs)"
    by (simp add: spec_collab_simps spec_MkdirAll_def)
  have nt: "newTree spec_collab ''/tmp/log'' broken_signer 0 ''Empty'' fresh_fs
       = (Some (Err ''cannot sign''), fresh_fs)"
    by (simp add: newTree_def spec_collab_simps spec_Sign_def broken_signer_def)
  have rd: "posix_ReadCheckpoint spec_collab (fresh_fs(''/tmp/log'' \<mapsto> empty_note)) ''/tmp/log''
       = Inr empty_note"
    by (simp add: spec_collab_simps spec_ReadCheckpoint_def)
  have sg: "note_Sign spec_collab (Checkpoint_Marshal spec_collab
        \<lparr>Origin = Signer_Name example_signer, Size = 0, Hash = ''Empty''\<rparr>) example_signer
       = Inr empty_note"
    by (simp add: spec_collab_simps spec_Sign_def spec_Marshal_def example_signer_def
        empty_note_def)
  note inst = main_startup_initialises [OF spec_read_after_write,
      where fs = fresh_fs and path = "''/tmp/log''" and fsm = fresh_fs
        and vKey = example_verifier and err = "Err ''ReadCheckpoint: no checkpoint''"]
  from inst [where sKey = example_signer] inst [where sKey = broken_signer]
  show ?thesis
    using mk example_currentTree_fresh example_newTree_empty nt rd sg spec_read_after_write
    by simp
qed

subsection \<open>The latency aggregator\<close>

text \<open>
  C4. From a fresh aggregator, \<^verbatim>\<open>Add(100ms)\<close> then \<^verbatim>\<open>Add(300ms)\<close> leaves count 2,
  total 400ms (mean 200ms) and max 300ms, but min stays at the zero value it started
  with: no sample is below 0, so \<^verbatim>\<open>String\<close> prints the minimum as \<^verbatim>\<open>%v\<close> of 0, not
  of 100ms.
\<close>

theorem latency_two_samples_min_zero:
  "latency_Add (latency_Add latency_zero (100 * Millisecond)) (300 * Millisecond)
     = \<lparr>lat_total = 400 * Millisecond, lat_n = 2, lat_min = 0, lat_max = 300 * Millisecond\<rparr>
   \<and> latency_String fmt_v
       (latency_Add (latency_Add latency_zero (100 * Millisecond)) (300 * Millisecond))
     = ''[Mean: '' @ fmt_v (200 * Millisecond) @ '' Min: '' @ fmt_v 0
       @ '' Max '' @ fmt_v (300 * Millisecond) @ '']''
   \<and> lat_min (latency_Add (latency_Add latency_zero (100 * Millisecond)) (300 * Millisecond))
     \<noteq> 100 * Millisecond"
  by (simp add: latency_Add_def latency_zero_def latency_String_def Millisecond_def
      int64_div_400ms_2 word_sless_alt)

subsection \<open>The handler of POST /add\<close>

text \<open>
  C5. For every request to \<^verbatim>\<open>POST /add\<close>: when the body is read and \<^verbatim>\<open>Sequence\<close>
  returns an index, the response is 200 with the index in decimal and a newline as its
  body; when \<^verbatim>\<open>Sequence\<close> returns an error, it is 500 with "Failed to sequence entry: "
  and the text of the error as its body; when reading the body fails, it is 500 with an
  empty body.
\<close>

theorem POST_add_response:
  "(readAll = Inr b \<longrightarrow> Sequence st b = (Inr idx, st') \<longrightarrow>
      h_response (POST_add Sequence readAll elapsed new_ResponseWriter l st)
        = \<lparr>rw_status = Some 200, rw_body = fmt_d (unat idx) @ ''\<newline>''\<rparr>)
   \<and> (readAll = Inr b \<longrightarrow> Sequence st b = (Inl serr, st') \<longrightarrow>
        h_response (POST_add Sequence readAll elapsed new_ResponseWriter l st)
          = \<lparr>rw_status = Some 500, rw_body = ''Failed to sequence entry: '' @ Error serr\<rparr>)
   \<and> (readAll = Inl rerr \<longrightarrow>
        h_response (POST_add Sequence readAll elapsed new_ResponseWriter l st)
          = \<lparr>rw_status = Some 500, rw_body = []\<rparr>)"
  by (simp add: POST_add_def Write_def WriteHeader_def new_ResponseWriter_def StatusOK_def
      StatusInternalServerError_def)

theorem POST_add_response_witness:
  "counting_storage 0 ''hello'' = (Inr 0, 1)
   \<and> h_response (POST_add counting_storage (Inr ''hello'') (3 * Millisecond) new_ResponseWriter
        latency_zero 0)
       = \<lparr>rw_status = Some 200, rw_body = ''0\<newline>''\<rparr>
   \<and> failing_storage 0 ''hello'' = (Inl (Err ''disk full''), 0)
   \<and> h_response (POST_add failing_storage (Inr ''hello'') (3 * Millisecond) new_ResponseWriter
        latency_zero 0)
       = \<lparr>rw_status = Some 500, rw_body = ''Failed to sequence entry: disk full''\<rparr>
   \<and> h_response (POST_add counting_storage (Inl (Err ''unexpected EOF'')) (3 * Millisecond)
        new_ResponseWriter latency_zero 0)
       = \<lparr>rw_status = Some 500, rw_body = []\<rparr>"
proof -
  have a: "counting_storage 0 ''hello'' = (Inr 0, 1)"
    by (simp add: counting_storage_def)
  have b: "failing_storage 0 ''hello'' = (Inl (Err ''disk full''), 0)"
    by (simp add: failing_storage_def)
  from POST_add_response [where readAll = "Inr ''hello''" and b = "''hello''"
      and Sequence = counting_storage and st = 0 and idx = 0 and st' = 1
      and elapsed = "3 * Millisecond" and l = latency_zero]
    POST_add_response [where readAll = "Inr ''hello''" and b = "''hello''"
      and Sequence = failing_storage and st = 0 and serr = "Err ''disk full''" and st' = 0
      and elapsed = "3 * Millisecond" and l = latency_zero]
    POST_add_response [where readAll = "Inl (Err ''unexpected EOF'')"
      and rerr = "Err ''unexpected EOF''" and Sequence = counting_storage and st = 0
      and elapsed = "3 * Millisecond" and l = latency_zero]
  show ?thesis using a b by (simp add: fmt_d_digits)
qed

text \<open>
  C8. For every request to \<^verbatim>\<open>POST /add\<close>, whatever the body read and \<^verbatim>\<open>Sequence\<close>
  return, the aggregator after the call is \<^verbatim>\<open>Add\<close> of the elapsed time on the aggregator
  before it, with one sample more; in particular when \<^verbatim>\<open>Sequence\<close> returns an error and
  the response is 500.
\<close>

theorem POST_add_records_latency:
  "h_latency (POST_add Sequence readAll elapsed w l st) = latency_Add l elapsed
   \<and> lat_n (h_latency (POST_add Sequence readAll elapsed w l st)) = lat_n l + 1
   \<and> (Sequence st b = (Inl err, st') \<longrightarrow>
        rw_status (h_response (POST_add Sequence (Inr b) elapsed new_ResponseWriter l st))
          = Some 500
        \<and> h_latency (POST_add Sequence (Inr b) elapsed new_ResponseWriter l st)
            = latency_Add l elapsed)"
proof -
  have "h_latency (POST_add Sequence r elapsed w' l st) = latency_Add l elapsed" for r w'
    by (simp add: POST_add_def split: sum.splits prod.splits)
  then show ?thesis
    by (simp add: lat_n_Add POST_add_def Write_def WriteHeader_def new_ResponseWriter_def
        StatusInternalServerError_def)
qed

theorem POST_add_records_latency_witness:
  "failing_storage 0 ''hello'' = (Inl (Err ''disk full''), 0)
   \<and> rw_status (h_response (POST_add failing_storage (Inr ''hello'') (3 * Millisecond)
        new_ResponseWriter latency_zero 0)) = Some 500
   \<and> h_latency (POST_add failing_storage (Inr ''hello'') (3 * Millisecond)
        new_ResponseWriter latency_zero 0)
       = \<lparr>lat_total = 3 * Millisecond, lat_n = 1, lat_min = 0, lat_max = 3 * Millisecond\<rparr>"
proof -
  have b: "failing_storage 0 ''hello'' = (Inl (Err ''disk full''), 0)"
    by (simp add: failing_storage_def)
  have c: "latency_Add latency_zero (3 * Millisecond)
      = \<lparr>lat_total = 3 * Millisecond, lat_n = 1, lat_min = 0, lat_max = 3 * Millisecond\<rparr>"
    by (simp add: latency_Add_def latency_zero_def Millisecond_def word_sless_alt)
  from POST_add_records_latency [where Sequence = failing_storage and st = 0
      and b = "''hello''" and err = "Err ''disk full''" and st' = 0
      and elapsed = "3 * Millisecond" and l = latency_zero]
  show ?thesis using b c by simp
qed

subsection \<open>The stats reporter\<close>

text \<open>
  C10. On a tick on which \<open>s\<close> returns a size, the loop logs the stats line exactly when
  the size it read on the latest earlier such tick (\<^verbatim>\<open>lastSize\<close>, 0 before the first) is
  greater than 0, and \<^verbatim>\<open>lastSize\<close> becomes the size just read either way; on a tick on
  which \<open>s\<close> fails it logs the error and keeps \<^verbatim>\<open>lastSize\<close>. So no stats line is logged
  on the first successful tick, nor while every size read before is 0.
\<close>

theorem printStats_logs_after_positive_size:
  "printStats fmt_v s (ticks @ [(w, l)]) =
     (case s w of
        Inl err \<Rightarrow>
          (last (0 # observed_sizes s ticks),
           snd (printStats fmt_v s ticks) @ [Errorf (''Failed to get checkpoint: '' @ Error err)])
      | Inr (sz, h) \<Rightarrow>
          (sz,
           snd (printStats fmt_v s ticks)
           @ (if 0 < last (0 # observed_sizes s ticks)
              then [stats_line fmt_v sz (last (0 # observed_sizes s ticks)) l] else [])))
   \<and> ((\<forall>z \<in> set (observed_sizes s ticks). z = 0) \<longrightarrow>
        (\<forall>m. Infof m \<notin> set (snd (printStats fmt_v s (ticks @ [(w, l)])))))"
proof -
  obtain ls out where run: "printStats_loop fmt_v s 0 [] ticks = (ls, out)"
    by (cases "printStats_loop fmt_v s 0 [] ticks")
  have ls: "ls = last (0 # observed_sizes s ticks)"
    using printStats_loop_lastSize [of fmt_v s 0 "[]" ticks] run by simp
  have step: "printStats fmt_v s (ticks @ [(w, l)]) =
     (case s w of
        Inl err \<Rightarrow> (ls, out @ [Errorf (''Failed to get checkpoint: '' @ Error err)])
      | Inr (sz, h) \<Rightarrow> (sz, out @ (if 0 < ls then [stats_line fmt_v sz ls l] else [])))"
    by (simp add: printStats_def printStats_loop_snoc run split: sum.splits prod.splits)
  have snd_out: "snd (printStats fmt_v s ticks) = out"
    by (simp add: printStats_def run)
  have first: "printStats fmt_v s (ticks @ [(w, l)]) =
     (case s w of
        Inl err \<Rightarrow>
          (last (0 # observed_sizes s ticks),
           snd (printStats fmt_v s ticks) @ [Errorf (''Failed to get checkpoint: '' @ Error err)])
      | Inr (sz, h) \<Rightarrow>
          (sz,
           snd (printStats fmt_v s ticks)
           @ (if 0 < last (0 # observed_sizes s ticks)
              then [stats_line fmt_v sz (last (0 # observed_sizes s ticks)) l] else [])))"
    using step unfolding snd_out ls [symmetric] .
  have second: "\<forall>m. Infof m \<notin> set (snd (printStats fmt_v s (ticks @ [(w, l)])))"
    if quiet: "\<forall>z \<in> set (observed_sizes s ticks). z = 0"
  proof -
    from quiet have "ls = 0"
      unfolding ls by (cases "observed_sizes s ticks" rule: rev_cases) simp_all
    moreover have "\<forall>m. Infof m \<notin> set out"
      using printStats_loop_quiet [OF refl quiet, of fmt_v "[]"] run by auto
    ultimately show ?thesis
      unfolding step by (auto split: sum.splits)
  qed
  from first second show ?thesis by blast
qed

theorem printStats_logs_after_positive_size_witness:
  "observed_sizes example_tree
     [(Inr (0, ''Empty''), latency_zero), (Inl (Err ''busy''), latency_zero)] = [0]
   \<and> printStats example_fmt_v example_tree
        ([(Inr (0, ''Empty''), latency_zero), (Inl (Err ''busy''), latency_zero)]
         @ [(Inr (3, ''r3''), latency_zero)])
       = (3, [Errorf ''Failed to get checkpoint: busy''])
   \<and> observed_sizes example_tree [(Inr (5, ''r5''), latency_zero)] = [5]
   \<and> printStats example_fmt_v example_tree
        ([(Inr (5, ''r5''), latency_zero)] @ [(Inr (7, ''r7''), latency_zero)])
       = (7, [Infof ''CP size 7 (+2); Latency: --''])"
proof -
  have obs: "observed_sizes example_tree
     [(Inr (0, ''Empty''), latency_zero), (Inl (Err ''busy''), latency_zero)] = [0]"
    "observed_sizes example_tree [(Inr (5, ''r5''), latency_zero)] = [5]"
    by (simp_all add: example_tree_def)
  have pre: "printStats example_fmt_v example_tree
       [(Inr (0, ''Empty''), latency_zero), (Inl (Err ''busy''), latency_zero)]
     = (0, [Errorf ''Failed to get checkpoint: busy''])"
    "printStats example_fmt_v example_tree [(Inr (5, ''r5''), latency_zero)] = (5, [])"
    by (simp_all add: printStats_def example_tree_def)
  have line: "stats_line example_fmt_v 7 5 latency_zero = Infof ''CP size 7 (+2); Latency: --''"
    by (simp add: stats_line_def latency_String_def latency_zero_def fmt_d_digits)
  from printStats_logs_after_positive_size [where fmt_v = example_fmt_v and s = example_tree
      and ticks = "[(Inr (0, ''Empty''), latency_zero), (Inl (Err ''busy''), latency_zero)]"
      and w = "Inr (3, ''r3'')" and l = latency_zero]
    printStats_logs_after_positive_size [where fmt_v = example_fmt_v and s = example_tree
      and ticks = "[(Inr (5, ''r5''), latency_zero)]"
      and w = "Inr (7, ''r7'')" and l = latency_zero]
  have "printStats example_fmt_v example_tree
        ([(Inr (0, ''Empty''), latency_zero), (Inl (Err ''busy''), latency_zero)]
         @ [(Inr (3, ''r3''), latency_zero)])
       = (3, [Errorf ''Failed to get checkpoint: busy''])"
    and "printStats example_fmt_v example_tree
        ([(Inr (5, ''r5''), latency_zero)] @ [(Inr (7, ''r7''), latency_zero)])
       = (7, [Infof ''CP size 7 (+2); Latency: --''])"
    by (simp_all only: obs pre line example_tree_def sum.case prod.case snd_conv last.simps
        list.simps if_True if_False append.simps) (simp_all add: line)
  with obs show ?thesis by blast
qed

end
